theory Spec2Isabelle
  imports Main "HOL-Library.Word"
begin

section \<open>The LDAP sudo back end (providers/ldap/sdap\_sudo.c)\<close>

text \<open>
  The file holds the initialisation of the sudo provider (\<open>sdap_sudo_init\<close>), the
  continuation of the host information request (\<open>sdap_sudo_get_hostinfo_done\<close>), the
  request handler (\<open>sdap_sudo_handler\<close>) with its continuation (\<open>sdap_sudo_reply\<close>)
  and the finaliser (\<open>sdap_sudo_shutdown\<close>). Every function is embedded as a HOL
  function that takes what its collaborators answer (allocation, option loading, the
  send and recv functions, the periodic task set-up) as arguments and returns the
  updated context together with the calls it made, in order.
\<close>

subsection \<open>Codes\<close>

text \<open>
  Modelled from the spec: the macros below are declared in headers that sdap\_sudo.c only
  includes (errno.h, util/util\_errors.h, providers/data\_provider.h). The spec names them
  as distinct codes (no error, NotFound, TemporarilyUnavailable, OutOfMemory, the invalid
  argument code, Internal; the categories OK, Offline, Fatal; the kinds Full and Rules).
  The numbers are those of Linux and of the SSSD headers; the theorems refer to the codes
  by name and rely on nothing but their being different from one another.
\<close>

definition EOK :: int where "EOK = 0"
definition ENOENT :: int where "ENOENT = 2"
definition EAGAIN :: int where "EAGAIN = 11"
definition ENOMEM :: int where "ENOMEM = 12"
definition EINVAL :: int where "EINVAL = 22"
definition ERR_INTERNAL :: int where "ERR_INTERNAL = 1432158209"

definition DP_ERR_OK :: int where "DP_ERR_OK = 0"
definition DP_ERR_OFFLINE :: int where "DP_ERR_OFFLINE = 1"
definition DP_ERR_FATAL :: int where "DP_ERR_FATAL = 3"

definition BE_REQ_SUDO_FULL :: "32 word" where "BE_REQ_SUDO_FULL = 6"
definition BE_REQ_SUDO_RULES :: "32 word" where "BE_REQ_SUDO_RULES = 7"

subsection \<open>Data\<close>

text \<open>
  \<open>struct sdap_sudo_ctx\<close>: the fields this file reads or writes. A pointer field
  (\<open>char **hostnames\<close>, \<open>char **ip_addr\<close>) is an option, \<open>None\<close> for \<open>NULL\<close>.
  \<open>id_ctx\<close> is an opaque pointer that is stored and handed on, never inspected.
\<close>

record sdap_sudo_ctx =
  use_host_filter :: bool
  include_regexp :: bool
  include_netgroups :: bool
  full_refresh_done :: bool
  hostnames :: "string list option"
  ip_addr :: "string list option"

text \<open>\<open>talloc_zero\<close> returns a context whose bytes are all zero.\<close>

definition talloc_zero_ctx :: sdap_sudo_ctx where
  "talloc_zero_ctx =
     \<lparr>use_host_filter = False, include_regexp = False, include_netgroups = False,
      full_refresh_done = False, hostnames = None, ip_addr = None\<rparr>"

text \<open>\<open>struct be_sudo_req\<close>: the payload of a request.\<close>

record be_sudo_req =
  req_type :: "32 word"
  req_rules :: "string list"

text \<open>
  The last argument of \<open>sdap_handler_done\<close>: \<open>NULL\<close>, a string literal, or
  \<open>strerror(ret)\<close>, kept symbolic.
\<close>

datatype errstr = Msg_null | Msg_literal string | Msg_strerror int

text \<open>
  The calls a function of this file makes to its collaborators, in the order it makes
  them. \<open>DEBUG\<close> lines and the release of a finished \<open>tevent_req\<close> are left out.
\<close>

datatype callback = Cb_get_hostinfo_done | Cb_reply

datatype call =
    Talloc_zero
  | Ldap_get_sudo_options
  | Sdap_sudo_get_hostinfo_send
  | Sdap_sudo_get_hostinfo_recv
  | Sdap_sudo_ptask_setup
  | Talloc_free_sudo_ctx
  | Tevent_req_set_callback callback
  | Be_is_offline
  | Sdap_sudo_full_refresh_send
  | Sdap_sudo_rules_refresh_send "string list"
  | Sdap_sudo_full_refresh_recv
  | Sdap_sudo_rules_refresh_recv
  | Sdap_handler_done int int errstr

fun is_dispatch :: "call \<Rightarrow> bool" where
  "is_dispatch Sdap_sudo_full_refresh_send = True"
| "is_dispatch (Sdap_sudo_rules_refresh_send rs) = True"
| "is_dispatch c = False"

fun is_reply :: "call \<Rightarrow> bool" where
  "is_reply (Sdap_handler_done dp_error ret msg) = True"
| "is_reply c = False"

text \<open>The replies among the calls: category and error code of each, in order.\<close>

fun replies :: "call list \<Rightarrow> (int \<times> int) list" where
  "replies [] = []"
| "replies (Sdap_handler_done dp_error ret msg # cs) = (dp_error, ret) # replies cs"
| "replies (c # cs) = replies cs"

subsection \<open>sdap\_sudo\_shutdown\<close>

definition sdap_sudo_shutdown :: "call list" where
  "sdap_sudo_shutdown = [Sdap_handler_done DP_ERR_OK EOK Msg_null]"

subsection \<open>sdap\_sudo\_init\<close>

text \<open>
  What the collaborators answer during initialisation: whether \<open>talloc_zero\<close> returns a
  context, what \<open>ldap_get_sudo_options\<close> returns and stores through its three output
  pointers, whether \<open>sdap_sudo_get_hostinfo_send\<close> returns a request, and what
  \<open>sdap_sudo_ptask_setup\<close> returns (the function logs a failure of the set-up and
  goes on, so the outcome does not depend on it).
\<close>

record init_env =
  talloc_zero_ok :: bool
  options_ret :: int
  options_use_host_filter :: bool
  options_include_regexp :: bool
  options_include_netgroups :: bool
  hostinfo_send_ok :: bool
  init_ptask_ret :: int

text \<open>
  The outcome: the value returned, whether \<open>*ops\<close> was set, the context \<open>*pvt_data\<close>
  points to (\<open>None\<close> when none was allocated or it was freed again), whether
  \<open>sdap_sudo_get_hostinfo_done\<close> is waiting as the callback of a started request, and
  the calls made.
\<close>

record init_result =
  init_ret :: int
  init_ops_set :: bool
  init_ctx :: "sdap_sudo_ctx option"
  init_callback :: bool
  init_calls :: "call list"

definition sdap_sudo_init :: "init_env \<Rightarrow> init_result" where
  "sdap_sudo_init env =
     (if \<not> talloc_zero_ok env then
        \<lparr>init_ret = ENOMEM, init_ops_set = False, init_ctx = None,
         init_callback = False, init_calls = [Talloc_zero]\<rparr>
      else if options_ret env \<noteq> EOK then
        \<lparr>init_ret = options_ret env, init_ops_set = True, init_ctx = None,
         init_callback = False,
         init_calls = [Talloc_zero, Ldap_get_sudo_options, Talloc_free_sudo_ctx]\<rparr>
      else
        (let sudo_ctx = talloc_zero_ctx
               \<lparr>full_refresh_done := False,
                use_host_filter := options_use_host_filter env,
                include_regexp := options_include_regexp env,
                include_netgroups := options_include_netgroups env\<rparr>
         in if \<not> hostinfo_send_ok env then
              \<lparr>init_ret = EOK, init_ops_set = True,
               init_ctx = Some (sudo_ctx\<lparr>use_host_filter := False\<rparr>),
               init_callback = False,
               init_calls = [Talloc_zero, Ldap_get_sudo_options,
                             Sdap_sudo_get_hostinfo_send, Sdap_sudo_ptask_setup]\<rparr>
            else
              \<lparr>init_ret = EOK, init_ops_set = True, init_ctx = Some sudo_ctx,
               init_callback = True,
               init_calls = [Talloc_zero, Ldap_get_sudo_options,
                             Sdap_sudo_get_hostinfo_send,
                             Tevent_req_set_callback Cb_get_hostinfo_done]\<rparr>))"

subsection \<open>sdap\_sudo\_get\_hostinfo\_done\<close>

text \<open>
  What \<open>sdap_sudo_get_hostinfo_recv\<close> returns and leaves in the two local pointers,
  which start as \<open>NULL\<close>.
\<close>

record hostinfo_recv =
  hostinfo_ret :: int
  hostinfo_hostnames :: "string list option"
  hostinfo_ip_addr :: "string list option"

text \<open>
  The second argument is what \<open>sdap_sudo_ptask_setup\<close> returns; it is logged and
  otherwise unused.
\<close>

definition sdap_sudo_get_hostinfo_done ::
  "sdap_sudo_ctx \<Rightarrow> hostinfo_recv \<Rightarrow> int \<Rightarrow> sdap_sudo_ctx \<times> call list" where
  "sdap_sudo_get_hostinfo_done sudo_ctx r ptask_ret =
     (let c1 = (if hostinfo_ret r \<noteq> EOK then sudo_ctx\<lparr>use_host_filter := False\<rparr>
                else sudo_ctx);
          c2 = c1\<lparr>hostnames := hostinfo_hostnames r, ip_addr := hostinfo_ip_addr r\<rparr>
      in (c2, [Sdap_sudo_get_hostinfo_recv, Sdap_sudo_ptask_setup]))"

subsection \<open>sdap\_sudo\_handler and sdap\_sudo\_reply\<close>

text \<open>
  The outcome of the handler: the calls made and whether \<open>sdap_sudo_reply\<close> is waiting
  as the callback of a dispatched request.
\<close>

record handler_result =
  handler_calls :: "call list"
  handler_callback :: bool

text \<open>The label \<open>fail:\<close> of the handler.\<close>

definition handler_fail :: "call list \<Rightarrow> int \<Rightarrow> handler_result" where
  "handler_fail cs ret =
     \<lparr>handler_calls = cs @ [Sdap_handler_done DP_ERR_FATAL ret Msg_null],
      handler_callback = False\<rparr>"

text \<open>
  The arguments: what \<open>be_is_offline\<close> answers, the payload of the request, and whether
  the send function that is called returns a request.
\<close>

definition sdap_sudo_handler :: "bool \<Rightarrow> be_sudo_req \<Rightarrow> bool \<Rightarrow> handler_result" where
  "sdap_sudo_handler offline sudo_req send_ok =
     (if offline then
        \<lparr>handler_calls =
           [Be_is_offline, Sdap_handler_done DP_ERR_OFFLINE EAGAIN (Msg_literal ''Offline'')],
         handler_callback = False\<rparr>
      else
        (case (if req_type sudo_req = BE_REQ_SUDO_FULL then
                 Inr Sdap_sudo_full_refresh_send
               else if req_type sudo_req = BE_REQ_SUDO_RULES then
                 Inr (Sdap_sudo_rules_refresh_send (req_rules sudo_req))
               else Inl EINVAL) of
           Inl ret \<Rightarrow> handler_fail [Be_is_offline] ret
         | Inr send \<Rightarrow>
             if \<not> send_ok then handler_fail [Be_is_offline, send] ENOMEM
             else \<lparr>handler_calls = [Be_is_offline, send, Tevent_req_set_callback Cb_reply],
                   handler_callback = True\<rparr>))"

text \<open>
  What the recv function of the dispatched request returns and stores: the return value,
  \<open>dp_error\<close>, and \<open>deleted\<close> (written by \<open>sdap_sudo_rules_refresh_recv\<close> only).
\<close>

record refresh_recv =
  refresh_ret :: int
  refresh_dp_error :: int
  refresh_deleted :: bool

definition sdap_sudo_reply :: "be_sudo_req \<Rightarrow> refresh_recv \<Rightarrow> call list" where
  "sdap_sudo_reply sudo_req r =
     (if req_type sudo_req = BE_REQ_SUDO_FULL then
        [Sdap_sudo_full_refresh_recv,
         Sdap_handler_done (refresh_dp_error r) (refresh_ret r) (Msg_strerror (refresh_ret r))]
      else if req_type sudo_req = BE_REQ_SUDO_RULES then
        (let ret = (if refresh_ret r = EOK \<and> refresh_deleted r = True then ENOENT
                    else refresh_ret r)
         in [Sdap_sudo_rules_refresh_recv,
             Sdap_handler_done (refresh_dp_error r) ret (Msg_strerror ret)])
      else
        [Sdap_handler_done DP_ERR_FATAL ERR_INTERNAL (Msg_strerror ERR_INTERNAL)])"

text \<open>
  One request from arrival to the end: the handler runs; when it has registered
  \<open>sdap_sudo_reply\<close> on the dispatched request, the event loop calls it once, when the
  request completes.
\<close>

definition request_calls :: "bool \<Rightarrow> be_sudo_req \<Rightarrow> bool \<Rightarrow> refresh_recv \<Rightarrow> call list" where
  "request_calls offline sudo_req send_ok r =
     (let h = sdap_sudo_handler offline sudo_req send_ok
      in handler_calls h @ (if handler_callback h then sdap_sudo_reply sudo_req r else []))"

subsection \<open>The life of the context\<close>

text \<open>
  The functions of this file that run after initialisation, with the answers of their
  collaborators. Only \<open>sdap_sudo_get_hostinfo_done\<close> assigns to a field of the context;
  the handler reads the pointer to hand it to the send function, and
  \<open>sdap_sudo_reply\<close> and \<open>sdap_sudo_shutdown\<close> do not touch it.
\<close>

datatype module_op =
    Op_get_hostinfo_done hostinfo_recv int
  | Op_handler bool be_sudo_req bool
  | Op_reply be_sudo_req refresh_recv
  | Op_shutdown

fun module_step :: "sdap_sudo_ctx \<Rightarrow> module_op \<Rightarrow> sdap_sudo_ctx" where
  "module_step c (Op_get_hostinfo_done r p) = fst (sdap_sudo_get_hostinfo_done c r p)"
| "module_step c (Op_handler offline sudo_req send_ok) = c"
| "module_step c (Op_reply sudo_req r) = c"
| "module_step c Op_shutdown = c"

definition module_run :: "sdap_sudo_ctx \<Rightarrow> module_op list \<Rightarrow> sdap_sudo_ctx" where
  "module_run c ops = foldl module_step c ops"

text \<open>The host identity is present: both pointers are set.\<close>

definition host_identity_present :: "sdap_sudo_ctx \<Rightarrow> bool" where
  "host_identity_present c = (hostnames c \<noteq> None \<and> ip_addr c \<noteq> None)"

section \<open>Properties\<close>

lemmas code_defs =
  EOK_def ENOENT_def EAGAIN_def ENOMEM_def EINVAL_def ERR_INTERNAL_def
  DP_ERR_OK_def DP_ERR_OFFLINE_def DP_ERR_FATAL_def
  BE_REQ_SUDO_FULL_def BE_REQ_SUDO_RULES_def

subsection \<open>Requests while offline\<close>

text \<open>
  C4. Whatever the request, when \<open>be_is_offline\<close> answers yes the handler replies at once
  with \<open>DP_ERR_OFFLINE\<close> and \<open>EAGAIN\<close>, registers no callback and calls neither
  \<open>sdap_sudo_full_refresh_send\<close> nor \<open>sdap_sudo_rules_refresh_send\<close>.
\<close>

theorem offline_short_circuit:
  "handler_calls (sdap_sudo_handler True sudo_req send_ok) =
     [Be_is_offline, Sdap_handler_done DP_ERR_OFFLINE EAGAIN (Msg_literal ''Offline'')]
   \<and> replies (handler_calls (sdap_sudo_handler True sudo_req send_ok)) =
       [(DP_ERR_OFFLINE, EAGAIN)]
   \<and> filter is_dispatch (handler_calls (sdap_sudo_handler True sudo_req send_ok)) = []
   \<and> handler_callback (sdap_sudo_handler True sudo_req send_ok) = False"
  by (simp add: sdap_sudo_handler_def)

text \<open>
  C9. The offline test comes first. While offline the outcome of the handler is the same
  for any two requests and any two answers of a send function, so neither the kind nor
  the rules of the request have a part in it; the one reply is \<open>DP_ERR_OFFLINE\<close> with
  \<open>EAGAIN\<close>, and no reply of category \<open>DP_ERR_FATAL\<close> is made, whatever the kind.
\<close>

theorem offline_precedes_kind_check:
  "sdap_sudo_handler True sudo_req send_ok = sdap_sudo_handler True sudo_req' send_ok'
   \<and> replies (handler_calls (sdap_sudo_handler True sudo_req send_ok)) =
       [(DP_ERR_OFFLINE, EAGAIN)]
   \<and> (DP_ERR_FATAL, ret) \<notin> set (replies (handler_calls (sdap_sudo_handler True sudo_req send_ok)))"
  by (simp add: sdap_sudo_handler_def DP_ERR_OFFLINE_def DP_ERR_FATAL_def)

subsection \<open>Requests while online\<close>

text \<open>
  C2, as the code has it. Online, a request whose type is neither \<open>BE_REQ_SUDO_FULL\<close> nor
  \<open>BE_REQ_SUDO_RULES\<close> is answered at once with \<open>DP_ERR_FATAL\<close> and \<open>EINVAL\<close>; no send
  function is called and no callback is registered.
\<close>

theorem unrecognised_kind_reply:
  assumes "req_type sudo_req \<noteq> BE_REQ_SUDO_FULL"
    and "req_type sudo_req \<noteq> BE_REQ_SUDO_RULES"
  shows "handler_calls (sdap_sudo_handler False sudo_req send_ok) =
           [Be_is_offline, Sdap_handler_done DP_ERR_FATAL EINVAL Msg_null]
         \<and> replies (handler_calls (sdap_sudo_handler False sudo_req send_ok)) =
             [(DP_ERR_FATAL, EINVAL)]
         \<and> filter is_dispatch (handler_calls (sdap_sudo_handler False sudo_req send_ok)) = []
         \<and> handler_callback (sdap_sudo_handler False sudo_req send_ok) = False"
  using assms by (simp add: sdap_sudo_handler_def handler_fail_def)

theorem unrecognised_kind_reply_witness:
  "req_type \<lparr>req_type = 1, req_rules = [''r1'']\<rparr> \<noteq> BE_REQ_SUDO_FULL
   \<and> req_type \<lparr>req_type = 1, req_rules = [''r1'']\<rparr> \<noteq> BE_REQ_SUDO_RULES
   \<and> replies (handler_calls
        (sdap_sudo_handler False \<lparr>req_type = 1, req_rules = [''r1'']\<rparr> True)) =
       [(DP_ERR_FATAL, EINVAL)]
   \<and> filter is_dispatch (handler_calls
        (sdap_sudo_handler False \<lparr>req_type = 1, req_rules = [''r1'']\<rparr> True)) = []"
proof -
  have t1: "req_type \<lparr>req_type = 1, req_rules = [''r1'']\<rparr> \<noteq> BE_REQ_SUDO_FULL"
    by (simp add: BE_REQ_SUDO_FULL_def)
  have t2: "req_type \<lparr>req_type = 1, req_rules = [''r1'']\<rparr> \<noteq> BE_REQ_SUDO_RULES"
    by (simp add: BE_REQ_SUDO_RULES_def)
  from unrecognised_kind_reply [OF t1 t2, of True] t1 t2 show ?thesis
    by blast
qed

text \<open>
  The claim C2 as stated, with the code \<open>ERR_INTERNAL\<close>, fails: online, a request of type
  1 is answered with \<open>EINVAL\<close>, which is another code.
\<close>

theorem unrecognised_kind_internal_counterexample:
  "(1 :: 32 word) \<noteq> BE_REQ_SUDO_FULL \<and> (1 :: 32 word) \<noteq> BE_REQ_SUDO_RULES
   \<and> replies (handler_calls
        (sdap_sudo_handler False \<lparr>req_type = 1, req_rules = []\<rparr> True)) \<noteq>
       [(DP_ERR_FATAL, ERR_INTERNAL)]"
  by (simp add: sdap_sudo_handler_def handler_fail_def code_defs)

text \<open>
  C3. A request is answered once. Over the whole of a request (the handler, then
  \<open>sdap_sudo_reply\<close> when the handler has registered it) there is one call of
  \<open>sdap_handler_done\<close>. The handler registers the callback when it is online, the type is
  one of the two known ones and the send function returned a request, and it then makes
  no reply itself; on the three other paths (offline, unknown type, no request from the
  send function) it replies once and registers nothing. \<open>sdap_sudo_reply\<close> replies once
  on each of its branches, and \<open>sdap_sudo_shutdown\<close> replies once to its own request.
\<close>

theorem reply_exactly_once:
  "length (filter is_reply (request_calls offline sudo_req send_ok r)) = 1
   \<and> handler_callback (sdap_sudo_handler offline sudo_req send_ok) =
       (\<not> offline
        \<and> (req_type sudo_req = BE_REQ_SUDO_FULL \<or> req_type sudo_req = BE_REQ_SUDO_RULES)
        \<and> send_ok)
   \<and> length (filter is_reply (handler_calls (sdap_sudo_handler offline sudo_req send_ok))) =
       (if handler_callback (sdap_sudo_handler offline sudo_req send_ok) then 0 else 1)
   \<and> length (filter is_reply (sdap_sudo_reply sudo_req r)) = 1
   \<and> length (filter is_reply sdap_sudo_shutdown) = 1"
  by (simp add: request_calls_def sdap_sudo_handler_def handler_fail_def
      sdap_sudo_reply_def sdap_sudo_shutdown_def Let_def)

text \<open>
  C5. When a request of type \<open>BE_REQ_SUDO_RULES\<close> completes with \<open>EOK\<close> and
  \<open>deleted\<close> set, the reply carries \<open>ENOENT\<close>, which is not \<open>EOK\<close>; the category is
  the one the recv function stored. This holds for \<open>sdap_sudo_reply\<close> and so for the
  whole of a dispatched request.
\<close>

theorem rules_deleted_not_found:
  assumes "req_type sudo_req = BE_REQ_SUDO_RULES"
    and "refresh_ret r = EOK"
    and "refresh_deleted r"
  shows "sdap_sudo_reply sudo_req r =
           [Sdap_sudo_rules_refresh_recv,
            Sdap_handler_done (refresh_dp_error r) ENOENT (Msg_strerror ENOENT)]
         \<and> replies (request_calls False sudo_req True r) = [(refresh_dp_error r, ENOENT)]
         \<and> ENOENT \<noteq> EOK"
  using assms
  by (simp add: sdap_sudo_reply_def request_calls_def sdap_sudo_handler_def
      BE_REQ_SUDO_FULL_def BE_REQ_SUDO_RULES_def ENOENT_def EOK_def)

theorem rules_deleted_not_found_witness:
  "req_type \<lparr>req_type = BE_REQ_SUDO_RULES, req_rules = [''rule1'']\<rparr> = BE_REQ_SUDO_RULES
   \<and> refresh_ret \<lparr>refresh_ret = EOK, refresh_dp_error = DP_ERR_OK, refresh_deleted = True\<rparr> = EOK
   \<and> refresh_deleted \<lparr>refresh_ret = EOK, refresh_dp_error = DP_ERR_OK, refresh_deleted = True\<rparr>
   \<and> replies (request_calls False \<lparr>req_type = BE_REQ_SUDO_RULES, req_rules = [''rule1'']\<rparr> True
      \<lparr>refresh_ret = EOK, refresh_dp_error = DP_ERR_OK, refresh_deleted = True\<rparr>) =
     [(DP_ERR_OK, ENOENT)]"
  using rules_deleted_not_found
    [of "\<lparr>req_type = BE_REQ_SUDO_RULES, req_rules = [''rule1'']\<rparr>"
        "\<lparr>refresh_ret = EOK, refresh_dp_error = DP_ERR_OK, refresh_deleted = True\<rparr>"]
  by simp

subsection \<open>Initialisation\<close>

text \<open>
  C8. When \<open>ldap_get_sudo_options\<close> fails, \<open>sdap_sudo_init\<close> frees the context and
  returns that error: it calls neither \<open>sdap_sudo_get_hostinfo_send\<close> nor
  \<open>sdap_sudo_ptask_setup\<close>, and registers no callback.
\<close>

theorem options_failure_aborts_init:
  assumes "talloc_zero_ok env" and "options_ret env \<noteq> EOK"
  shows "init_ret (sdap_sudo_init env) = options_ret env
         \<and> init_calls (sdap_sudo_init env) =
             [Talloc_zero, Ldap_get_sudo_options, Talloc_free_sudo_ctx]
         \<and> Sdap_sudo_get_hostinfo_send \<notin> set (init_calls (sdap_sudo_init env))
         \<and> Sdap_sudo_ptask_setup \<notin> set (init_calls (sdap_sudo_init env))
         \<and> init_callback (sdap_sudo_init env) = False
         \<and> init_ctx (sdap_sudo_init env) = None"
  using assms by (simp add: sdap_sudo_init_def)

theorem options_failure_aborts_init_witness:
  "talloc_zero_ok \<lparr>talloc_zero_ok = True, options_ret = EINVAL,
       options_use_host_filter = True, options_include_regexp = False,
       options_include_netgroups = True, hostinfo_send_ok = True, init_ptask_ret = EOK\<rparr>
   \<and> EINVAL \<noteq> EOK
   \<and> init_ret (sdap_sudo_init \<lparr>talloc_zero_ok = True, options_ret = EINVAL,
       options_use_host_filter = True, options_include_regexp = False,
       options_include_netgroups = True, hostinfo_send_ok = True, init_ptask_ret = EOK\<rparr>)
     = EINVAL
   \<and> Sdap_sudo_ptask_setup \<notin> set (init_calls (sdap_sudo_init
       \<lparr>talloc_zero_ok = True, options_ret = EINVAL,
        options_use_host_filter = True, options_include_regexp = False,
        options_include_netgroups = True, hostinfo_send_ok = True, init_ptask_ret = EOK\<rparr>))"
proof -
  have ne: "EINVAL \<noteq> EOK"
    by (simp add: EINVAL_def EOK_def)
  from ne options_failure_aborts_init
    [of "\<lparr>talloc_zero_ok = True, options_ret = EINVAL,
          options_use_host_filter = True, options_include_regexp = False,
          options_include_netgroups = True, hostinfo_send_ok = True, init_ptask_ret = EOK\<rparr>"]
  show ?thesis by simp
qed

text \<open>
  C1, as the code has it. Once the options are loaded, \<open>sdap_sudo_init\<close> returns \<open>EOK\<close>
  and keeps the context, whatever \<open>sdap_sudo_ptask_setup\<close> returns. It calls
  \<open>sdap_sudo_ptask_setup\<close> itself only when the host information request could not be
  started (once); when the request was started it registers
  \<open>sdap_sudo_get_hostinfo_done\<close> and makes no call of \<open>sdap_sudo_ptask_setup\<close>. The
  callback calls \<open>sdap_sudo_ptask_setup\<close> once, whatever the request returned and
  whatever the set-up returns.
\<close>

theorem scheduler_arm_attempts:
  assumes "talloc_zero_ok env" and "options_ret env = EOK"
  shows "init_ret (sdap_sudo_init env) = EOK
         \<and> init_ctx (sdap_sudo_init env) \<noteq> None
         \<and> init_callback (sdap_sudo_init env) = hostinfo_send_ok env
         \<and> count_list (init_calls (sdap_sudo_init env)) Sdap_sudo_ptask_setup =
             (if hostinfo_send_ok env then 0 else 1)
         \<and> count_list (snd (sdap_sudo_get_hostinfo_done c r p)) Sdap_sudo_ptask_setup = 1"
  using assms by (simp add: sdap_sudo_init_def sdap_sudo_get_hostinfo_done_def Let_def)

theorem scheduler_arm_attempts_witness:
  "talloc_zero_ok \<lparr>talloc_zero_ok = True, options_ret = EOK,
       options_use_host_filter = True, options_include_regexp = False,
       options_include_netgroups = False, hostinfo_send_ok = False,
       init_ptask_ret = ENOMEM\<rparr>
   \<and> options_ret \<lparr>talloc_zero_ok = True, options_ret = EOK,
       options_use_host_filter = True, options_include_regexp = False,
       options_include_netgroups = False, hostinfo_send_ok = False,
       init_ptask_ret = ENOMEM\<rparr> = EOK
   \<and> init_ret (sdap_sudo_init \<lparr>talloc_zero_ok = True, options_ret = EOK,
       options_use_host_filter = True, options_include_regexp = False,
       options_include_netgroups = False, hostinfo_send_ok = False,
       init_ptask_ret = ENOMEM\<rparr>) = EOK
   \<and> count_list (init_calls (sdap_sudo_init \<lparr>talloc_zero_ok = True, options_ret = EOK,
       options_use_host_filter = True, options_include_regexp = False,
       options_include_netgroups = False, hostinfo_send_ok = False,
       init_ptask_ret = ENOMEM\<rparr>)) Sdap_sudo_ptask_setup = 1
   \<and> count_list (snd (sdap_sudo_get_hostinfo_done talloc_zero_ctx
       \<lparr>hostinfo_ret = ENOMEM, hostinfo_hostnames = None, hostinfo_ip_addr = None\<rparr> ENOMEM))
       Sdap_sudo_ptask_setup = 1"
  using scheduler_arm_attempts
    [of "\<lparr>talloc_zero_ok = True, options_ret = EOK,
          options_use_host_filter = True, options_include_regexp = False,
          options_include_netgroups = False, hostinfo_send_ok = False,
          init_ptask_ret = ENOMEM\<rparr>"
        talloc_zero_ctx
        "\<lparr>hostinfo_ret = ENOMEM, hostinfo_hostnames = None, hostinfo_ip_addr = None\<rparr>"
        ENOMEM]
  by simp

text \<open>
  The claim C1 as stated fails: when the host information request is started,
  \<open>sdap_sudo_init\<close> returns \<open>EOK\<close> with the callback registered and has made no call
  of \<open>sdap_sudo_ptask_setup\<close>, not one.
\<close>

theorem synchronous_arm_counterexample:
  "init_ret (sdap_sudo_init \<lparr>talloc_zero_ok = True, options_ret = EOK,
       options_use_host_filter = True, options_include_regexp = False,
       options_include_netgroups = False, hostinfo_send_ok = True,
       init_ptask_ret = EOK\<rparr>) = EOK
   \<and> init_callback (sdap_sudo_init \<lparr>talloc_zero_ok = True, options_ret = EOK,
       options_use_host_filter = True, options_include_regexp = False,
       options_include_netgroups = False, hostinfo_send_ok = True,
       init_ptask_ret = EOK\<rparr>)
   \<and> count_list (init_calls (sdap_sudo_init \<lparr>talloc_zero_ok = True, options_ret = EOK,
       options_use_host_filter = True, options_include_regexp = False,
       options_include_netgroups = False, hostinfo_send_ok = True,
       init_ptask_ret = EOK\<rparr>)) Sdap_sudo_ptask_setup \<noteq> 1"
  by (simp add: sdap_sudo_init_def Let_def)

subsection \<open>The host filter\<close>

text \<open>A step of the module leaves the host filter off when it was off; so does a run.\<close>

lemma module_step_use_host_filter:
  "use_host_filter (module_step c op) \<Longrightarrow> use_host_filter c"
  by (cases op) (simp_all add: sdap_sudo_get_hostinfo_done_def Let_def split: if_splits)

lemma module_run_use_host_filter:
  "use_host_filter (module_run c ops) \<Longrightarrow> use_host_filter c"
  unfolding module_run_def
proof (induction ops arbitrary: c)
  case Nil
  then show ?case by simp
next
  case (Cons op ops)
  from Cons.prems have "use_host_filter (foldl module_step (module_step c op) ops)"
    by simp
  then have "use_host_filter (module_step c op)"
    by (rule Cons.IH)
  then show ?case
    by (rule module_step_use_host_filter)
qed

text \<open>
  C6. When the host information request cannot be started, \<open>sdap_sudo_init\<close> still returns
  \<open>EOK\<close> and hands out a context whose \<open>use_host_filter\<close> is false, whatever the option
  was. When the request completes with an error, the context that
  \<open>sdap_sudo_get_hostinfo_done\<close> leaves has \<open>use_host_filter\<close> false, whatever it was
  before, and the periodic task is still set up. In both cases the flag stays false
  through everything the module does later.
\<close>

theorem hostinfo_failure_disables_host_filter:
  "(talloc_zero_ok env \<and> options_ret env = EOK \<and> \<not> hostinfo_send_ok env \<longrightarrow>
      init_ret (sdap_sudo_init env) = EOK
      \<and> map_option use_host_filter (init_ctx (sdap_sudo_init env)) = Some False
      \<and> map_option (\<lambda>c. use_host_filter (module_run c ops)) (init_ctx (sdap_sudo_init env)) =
          Some False)
   \<and> (hostinfo_ret r \<noteq> EOK \<longrightarrow>
        use_host_filter (fst (sdap_sudo_get_hostinfo_done c r p)) = False
        \<and> use_host_filter (module_run (fst (sdap_sudo_get_hostinfo_done c r p)) ops) = False
        \<and> Sdap_sudo_ptask_setup \<in> set (snd (sdap_sudo_get_hostinfo_done c r p)))"
proof (intro conjI impI)
  assume a: "talloc_zero_ok env \<and> options_ret env = EOK \<and> \<not> hostinfo_send_ok env"
  then show "init_ret (sdap_sudo_init env) = EOK"
    by (simp add: sdap_sudo_init_def Let_def)
  from a show off: "map_option use_host_filter (init_ctx (sdap_sudo_init env)) = Some False"
    by (simp add: sdap_sudo_init_def Let_def)
  then obtain c0 where c0: "init_ctx (sdap_sudo_init env) = Some c0" "\<not> use_host_filter c0"
    by auto
  from c0(2) have "\<not> use_host_filter (module_run c0 ops)"
    using module_run_use_host_filter by blast
  with c0(1)
  show "map_option (\<lambda>c. use_host_filter (module_run c ops)) (init_ctx (sdap_sudo_init env)) =
          Some False"
    by simp
next
  assume b: "hostinfo_ret r \<noteq> EOK"
  then show off: "use_host_filter (fst (sdap_sudo_get_hostinfo_done c r p)) = False"
    by (simp add: sdap_sudo_get_hostinfo_done_def Let_def)
  then show "use_host_filter (module_run (fst (sdap_sudo_get_hostinfo_done c r p)) ops) = False"
    using module_run_use_host_filter by blast
  show "Sdap_sudo_ptask_setup \<in> set (snd (sdap_sudo_get_hostinfo_done c r p))"
    by (simp add: sdap_sudo_get_hostinfo_done_def Let_def)
qed

theorem hostinfo_failure_disables_host_filter_witness:
  "talloc_zero_ok \<lparr>talloc_zero_ok = True, options_ret = EOK,
       options_use_host_filter = True, options_include_regexp = True,
       options_include_netgroups = True, hostinfo_send_ok = False, init_ptask_ret = EOK\<rparr>
   \<and> options_use_host_filter \<lparr>talloc_zero_ok = True, options_ret = EOK,
       options_use_host_filter = True, options_include_regexp = True,
       options_include_netgroups = True, hostinfo_send_ok = False, init_ptask_ret = EOK\<rparr>
   \<and> map_option use_host_filter (init_ctx (sdap_sudo_init \<lparr>talloc_zero_ok = True,
       options_ret = EOK, options_use_host_filter = True, options_include_regexp = True,
       options_include_netgroups = True, hostinfo_send_ok = False, init_ptask_ret = EOK\<rparr>))
     = Some False
   \<and> hostinfo_ret \<lparr>hostinfo_ret = EAGAIN, hostinfo_hostnames = None,
       hostinfo_ip_addr = None\<rparr> \<noteq> EOK
   \<and> use_host_filter (talloc_zero_ctx\<lparr>use_host_filter := True\<rparr>)
   \<and> use_host_filter (fst (sdap_sudo_get_hostinfo_done
       (talloc_zero_ctx\<lparr>use_host_filter := True\<rparr>)
       \<lparr>hostinfo_ret = EAGAIN, hostinfo_hostnames = None, hostinfo_ip_addr = None\<rparr> EOK))
     = False"
proof -
  have ne: "EAGAIN \<noteq> EOK"
    by (simp add: EAGAIN_def EOK_def)
  from ne hostinfo_failure_disables_host_filter
    [of "\<lparr>talloc_zero_ok = True, options_ret = EOK,
          options_use_host_filter = True, options_include_regexp = True,
          options_include_netgroups = True, hostinfo_send_ok = False, init_ptask_ret = EOK\<rparr>"
        "[]"
        "\<lparr>hostinfo_ret = EAGAIN, hostinfo_hostnames = None, hostinfo_ip_addr = None\<rparr>"
        "talloc_zero_ctx\<lparr>use_host_filter := True\<rparr>" EOK]
  show ?thesis by simp
qed

text \<open>
  C10. The context that \<open>sdap_sudo_init\<close> hands out has \<open>use_host_filter\<close> set only if
  \<open>ldap_get_sudo_options\<close> stored true there. After that no function of the module turns
  the flag on: a step that ends with the flag on began with it on, and from a context
  with the flag off every run of the module ends with the flag off.
\<close>

theorem use_host_filter_never_enabled:
  "(map_option use_host_filter (init_ctx (sdap_sudo_init env)) = Some True \<longrightarrow>
      options_use_host_filter env)
   \<and> (use_host_filter (module_step c op) \<longrightarrow> use_host_filter c)
   \<and> (\<not> use_host_filter c \<longrightarrow> \<not> use_host_filter (module_run c ops))"
proof (intro conjI impI)
  assume "map_option use_host_filter (init_ctx (sdap_sudo_init env)) = Some True"
  then show "options_use_host_filter env"
    by (simp add: sdap_sudo_init_def Let_def split: if_splits)
next
  assume "use_host_filter (module_step c op)"
  then show "use_host_filter c"
    by (rule module_step_use_host_filter)
next
  assume "\<not> use_host_filter c"
  then show "\<not> use_host_filter (module_run c ops)"
    using module_run_use_host_filter by blast
qed

theorem use_host_filter_never_enabled_witness:
  "map_option use_host_filter (init_ctx (sdap_sudo_init \<lparr>talloc_zero_ok = True,
       options_ret = EOK, options_use_host_filter = True, options_include_regexp = False,
       options_include_netgroups = False, hostinfo_send_ok = True, init_ptask_ret = EOK\<rparr>))
     = Some True
   \<and> options_use_host_filter \<lparr>talloc_zero_ok = True,
       options_ret = EOK, options_use_host_filter = True, options_include_regexp = False,
       options_include_netgroups = False, hostinfo_send_ok = True, init_ptask_ret = EOK\<rparr>
   \<and> \<not> use_host_filter talloc_zero_ctx
   \<and> \<not> use_host_filter (module_run talloc_zero_ctx
         [Op_get_hostinfo_done
            \<lparr>hostinfo_ret = EOK, hostinfo_hostnames = Some [''h1''],
             hostinfo_ip_addr = Some [''192.0.2.1'']\<rparr> EOK,
          Op_handler False \<lparr>req_type = BE_REQ_SUDO_FULL, req_rules = []\<rparr> True,
          Op_reply \<lparr>req_type = BE_REQ_SUDO_FULL, req_rules = []\<rparr>
            \<lparr>refresh_ret = EOK, refresh_dp_error = DP_ERR_OK, refresh_deleted = False\<rparr>,
          Op_shutdown])"
proof -
  have on: "map_option use_host_filter (init_ctx (sdap_sudo_init \<lparr>talloc_zero_ok = True,
       options_ret = EOK, options_use_host_filter = True, options_include_regexp = False,
       options_include_netgroups = False, hostinfo_send_ok = True, init_ptask_ret = EOK\<rparr>))
     = Some True"
    by (simp add: sdap_sudo_init_def Let_def talloc_zero_ctx_def)
  have off: "\<not> use_host_filter talloc_zero_ctx"
    by (simp add: talloc_zero_ctx_def)
  from on off use_host_filter_never_enabled
    [of "\<lparr>talloc_zero_ok = True,
       options_ret = EOK, options_use_host_filter = True, options_include_regexp = False,
       options_include_netgroups = False, hostinfo_send_ok = True, init_ptask_ret = EOK\<rparr>"
        talloc_zero_ctx
        "Op_shutdown"
        "[Op_get_hostinfo_done
            \<lparr>hostinfo_ret = EOK, hostinfo_hostnames = Some [''h1''],
             hostinfo_ip_addr = Some [''192.0.2.1'']\<rparr> EOK,
          Op_handler False \<lparr>req_type = BE_REQ_SUDO_FULL, req_rules = []\<rparr> True,
          Op_reply \<lparr>req_type = BE_REQ_SUDO_FULL, req_rules = []\<rparr>
            \<lparr>refresh_ret = EOK, refresh_dp_error = DP_ERR_OK, refresh_deleted = False\<rparr>,
          Op_shutdown]"]
  show ?thesis by simp
qed

text \<open>
  C7, as the code has it. In the context that \<open>sdap_sudo_get_hostinfo_done\<close> leaves,
  \<open>use_host_filter\<close> is set only if the request returned \<open>EOK\<close>, and \<open>hostnames\<close> and
  \<open>ip_addr\<close> are what \<open>sdap_sudo_get_hostinfo_recv\<close> delivered; so, when a request
  that returns \<open>EOK\<close> delivers both, a set \<open>use_host_filter\<close> comes with the host
  identity. In the context of an initialisation that could not start the request the flag
  is off.
\<close>

theorem host_filter_implies_identity_after_fetch:
  "(use_host_filter (fst (sdap_sudo_get_hostinfo_done c r p)) \<longrightarrow> hostinfo_ret r = EOK)
   \<and> hostnames (fst (sdap_sudo_get_hostinfo_done c r p)) = hostinfo_hostnames r
   \<and> ip_addr (fst (sdap_sudo_get_hostinfo_done c r p)) = hostinfo_ip_addr r
   \<and> ((hostinfo_ret r = EOK \<longrightarrow> hostinfo_hostnames r \<noteq> None \<and> hostinfo_ip_addr r \<noteq> None) \<longrightarrow>
        use_host_filter (fst (sdap_sudo_get_hostinfo_done c r p)) \<longrightarrow>
        host_identity_present (fst (sdap_sudo_get_hostinfo_done c r p)))
   \<and> (talloc_zero_ok env \<and> options_ret env = EOK \<and> \<not> hostinfo_send_ok env \<longrightarrow>
        map_option use_host_filter (init_ctx (sdap_sudo_init env)) = Some False)"
proof (intro conjI impI)
  assume "use_host_filter (fst (sdap_sudo_get_hostinfo_done c r p))"
  then show ok: "hostinfo_ret r = EOK"
    by (simp add: sdap_sudo_get_hostinfo_done_def Let_def split: if_splits)
next
  show "hostnames (fst (sdap_sudo_get_hostinfo_done c r p)) = hostinfo_hostnames r"
    by (simp add: sdap_sudo_get_hostinfo_done_def Let_def)
next
  show "ip_addr (fst (sdap_sudo_get_hostinfo_done c r p)) = hostinfo_ip_addr r"
    by (simp add: sdap_sudo_get_hostinfo_done_def Let_def)
next
  assume delivers:
    "hostinfo_ret r = EOK \<longrightarrow> hostinfo_hostnames r \<noteq> None \<and> hostinfo_ip_addr r \<noteq> None"
  assume "use_host_filter (fst (sdap_sudo_get_hostinfo_done c r p))"
  then have "hostinfo_ret r = EOK"
    by (simp add: sdap_sudo_get_hostinfo_done_def Let_def split: if_splits)
  with delivers have "hostinfo_hostnames r \<noteq> None \<and> hostinfo_ip_addr r \<noteq> None"
    by simp
  then show "host_identity_present (fst (sdap_sudo_get_hostinfo_done c r p))"
    by (simp add: host_identity_present_def sdap_sudo_get_hostinfo_done_def Let_def)
next
  assume "talloc_zero_ok env \<and> options_ret env = EOK \<and> \<not> hostinfo_send_ok env"
  then show "map_option use_host_filter (init_ctx (sdap_sudo_init env)) = Some False"
    by (simp add: sdap_sudo_init_def Let_def)
qed

theorem host_filter_implies_identity_after_fetch_witness:
  "use_host_filter (fst (sdap_sudo_get_hostinfo_done
       (talloc_zero_ctx\<lparr>use_host_filter := True\<rparr>)
       \<lparr>hostinfo_ret = EOK, hostinfo_hostnames = Some [''h1''],
        hostinfo_ip_addr = Some [''192.0.2.1'']\<rparr> EOK))
   \<and> hostnames (fst (sdap_sudo_get_hostinfo_done
       (talloc_zero_ctx\<lparr>use_host_filter := True\<rparr>)
       \<lparr>hostinfo_ret = EOK, hostinfo_hostnames = Some [''h1''],
        hostinfo_ip_addr = Some [''192.0.2.1'']\<rparr> EOK)) = Some [''h1'']
   \<and> host_identity_present (fst (sdap_sudo_get_hostinfo_done
       (talloc_zero_ctx\<lparr>use_host_filter := True\<rparr>)
       \<lparr>hostinfo_ret = EOK, hostinfo_hostnames = Some [''h1''],
        hostinfo_ip_addr = Some [''192.0.2.1'']\<rparr> EOK))
   \<and> map_option use_host_filter (init_ctx (sdap_sudo_init \<lparr>talloc_zero_ok = True,
       options_ret = EOK, options_use_host_filter = True, options_include_regexp = False,
       options_include_netgroups = False, hostinfo_send_ok = False, init_ptask_ret = EOK\<rparr>))
     = Some False"
proof -
  have on: "use_host_filter (fst (sdap_sudo_get_hostinfo_done
       (talloc_zero_ctx\<lparr>use_host_filter := True\<rparr>)
       \<lparr>hostinfo_ret = EOK, hostinfo_hostnames = Some [''h1''],
        hostinfo_ip_addr = Some [''192.0.2.1'']\<rparr> EOK))"
    by (simp add: sdap_sudo_get_hostinfo_done_def Let_def)
  from on host_filter_implies_identity_after_fetch
    [of "talloc_zero_ctx\<lparr>use_host_filter := True\<rparr>"
        "\<lparr>hostinfo_ret = EOK, hostinfo_hostnames = Some [''h1''],
          hostinfo_ip_addr = Some [''192.0.2.1'']\<rparr>"
        EOK
        "\<lparr>talloc_zero_ok = True,
          options_ret = EOK, options_use_host_filter = True, options_include_regexp = False,
          options_include_netgroups = False, hostinfo_send_ok = False, init_ptask_ret = EOK\<rparr>"]
  show ?thesis by simp
qed

text \<open>
  The claim C7 as stated fails in the context that \<open>sdap_sudo_init\<close> hands out when the
  option is on and the request was started: until the callback runs, \<open>use_host_filter\<close>
  is set and both \<open>hostnames\<close> and \<open>ip_addr\<close> are \<open>NULL\<close>.
\<close>

theorem host_filter_without_identity_counterexample:
  "init_ret (sdap_sudo_init \<lparr>talloc_zero_ok = True, options_ret = EOK,
       options_use_host_filter = True, options_include_regexp = False,
       options_include_netgroups = False, hostinfo_send_ok = True,
       init_ptask_ret = EOK\<rparr>) = EOK
   \<and> map_option use_host_filter (init_ctx (sdap_sudo_init \<lparr>talloc_zero_ok = True,
       options_ret = EOK, options_use_host_filter = True, options_include_regexp = False,
       options_include_netgroups = False, hostinfo_send_ok = True,
       init_ptask_ret = EOK\<rparr>)) = Some True
   \<and> map_option host_identity_present (init_ctx (sdap_sudo_init \<lparr>talloc_zero_ok = True,
       options_ret = EOK, options_use_host_filter = True, options_include_regexp = False,
       options_include_netgroups = False, hostinfo_send_ok = True,
       init_ptask_ret = EOK\<rparr>)) = Some False"
  by (simp add: sdap_sudo_init_def Let_def talloc_zero_ctx_def host_identity_present_def)

end
